theory Spec2Isabelle
  imports Main
begin

section \<open>Data model of \<open>src/app.py\<close>\<close>

text \<open>
  The service keeps two module-level dictionaries, \<open>sessions\<close> (session token to user
  name) and \<open>activities\<close> (activity name to its entry), and one list loaded once at
  start-up, \<open>teachers\<close>. The two dictionaries are the mutable state; every handler takes
  the state and returns its answer together with the state it leaves behind, so that a
  mutation made before an exception is raised would remain visible.
\<close>

text \<open>An entry of \<open>teachers.json\<close>: a dictionary with the keys \<open>username\<close> and \<open>password\<close>.\<close>

record teacher =
  username :: string
  password :: string

text \<open>The pydantic model \<open>LoginRequest\<close>.\<close>

record LoginRequest =
  req_username :: string
  req_password :: string

text \<open>A value of the activity dictionary.\<close>

record activity =
  description :: string
  schedule :: string
  max_participants :: int
  participants :: "string list"

record state =
  sessions :: "string \<rightharpoonup> string"
  activities :: "string \<rightharpoonup> activity"

text \<open>\<open>HTTPException(status_code, detail)\<close>.\<close>

datatype http_error = HTTPException (status_code: nat) (detail: string)

text \<open>
  JSON bodies are flat objects of strings and booleans. A \<open>JSONResponse\<close> carries its
  body and the cookie operations performed on it.
\<close>

datatype json = JStr string | JBool bool

type_synonym json_object = "(string \<times> json) list"

datatype cookie_op =
    set_cookie (cookie_key: string) (cookie_value: string) (httponly: bool) (samesite: string)
  | delete_cookie (cookie_key: string)

record JSONResponse =
  content :: json_object
  cookies :: "cookie_op list"

section \<open>The seeded catalog\<close>

definition seed :: "(string \<times> activity) list" where
  "seed =
    [(''Chess Club'',
        \<lparr>description = ''Learn strategies and compete in chess tournaments'',
         schedule = ''Fridays, 3:30 PM - 5:00 PM'',
         max_participants = 12,
         participants = [''michael@mergington.edu'', ''daniel@mergington.edu'']\<rparr>),
     (''Programming Class'',
        \<lparr>description = ''Learn programming fundamentals and build software projects'',
         schedule = ''Tuesdays and Thursdays, 3:30 PM - 4:30 PM'',
         max_participants = 20,
         participants = [''emma@mergington.edu'', ''sophia@mergington.edu'']\<rparr>),
     (''Gym Class'',
        \<lparr>description = ''Physical education and sports activities'',
         schedule = ''Mondays, Wednesdays, Fridays, 2:00 PM - 3:00 PM'',
         max_participants = 30,
         participants = [''john@mergington.edu'', ''olivia@mergington.edu'']\<rparr>),
     (''Soccer Team'',
        \<lparr>description = ''Join the school soccer team and compete in matches'',
         schedule = ''Tuesdays and Thursdays, 4:00 PM - 5:30 PM'',
         max_participants = 22,
         participants = [''liam@mergington.edu'', ''noah@mergington.edu'']\<rparr>),
     (''Basketball Team'',
        \<lparr>description = ''Practice and play basketball with the school team'',
         schedule = ''Wednesdays and Fridays, 3:30 PM - 5:00 PM'',
         max_participants = 15,
         participants = [''ava@mergington.edu'', ''mia@mergington.edu'']\<rparr>),
     (''Art Club'',
        \<lparr>description = ''Explore your creativity through painting and drawing'',
         schedule = ''Thursdays, 3:30 PM - 5:00 PM'',
         max_participants = 15,
         participants = [''amelia@mergington.edu'', ''harper@mergington.edu'']\<rparr>),
     (''Drama Club'',
        \<lparr>description = ''Act, direct, and produce plays and performances'',
         schedule = ''Mondays and Wednesdays, 4:00 PM - 5:30 PM'',
         max_participants = 20,
         participants = [''ella@mergington.edu'', ''scarlett@mergington.edu'']\<rparr>),
     (''Math Club'',
        \<lparr>description = ''Solve challenging problems and participate in math competitions'',
         schedule = ''Tuesdays, 3:30 PM - 4:30 PM'',
         max_participants = 10,
         participants = [''james@mergington.edu'', ''benjamin@mergington.edu'']\<rparr>),
     (''Debate Team'',
        \<lparr>description = ''Develop public speaking and argumentation skills'',
         schedule = ''Fridays, 4:00 PM - 5:30 PM'',
         max_participants = 12,
         participants = [''charlotte@mergington.edu'', ''henry@mergington.edu'']\<rparr>)]"

text \<open>The state when the module has been loaded: no session, the seeded catalog.\<close>

definition initial_state :: state where
  "initial_state = \<lparr>sessions = Map.empty, activities = map_of seed\<rparr>"

section \<open>Authentication dependency\<close>

text \<open>
  \<open>if session_token and session_token in sessions\<close>: the cookie is optional, and both
  \<open>None\<close> and the empty string are falsy.
\<close>

definition get_current_user :: "state \<Rightarrow> string option \<Rightarrow> string option" where
  "get_current_user st session_token =
     (case session_token of
        None \<Rightarrow> None
      | Some t \<Rightarrow> if t \<noteq> [] \<and> t \<in> dom (sessions st) then sessions st t else None)"

text \<open>\<open>if not user\<close>: \<open>None\<close> and the empty user name are both rejected.\<close>

definition require_auth :: "state \<Rightarrow> string option \<Rightarrow> http_error + string" where
  "require_auth st session_token =
     (case get_current_user st session_token of
        None \<Rightarrow> Inl (HTTPException 401 ''Authentication required'')
      | Some user \<Rightarrow>
          if user = [] then Inl (HTTPException 401 ''Authentication required'')
          else Inr user)"

section \<open>Login, logout, status\<close>

text \<open>
  The loop of \<open>login\<close> over \<open>teachers\<close>, leaving at the first entry that matches.
  \<open>session_token\<close> is the value that \<open>secrets.token_urlsafe(32)\<close> returns when it is
  called: the random source is outside the program, so its result is an argument.
\<close>

fun login_loop ::
  "teacher list \<Rightarrow> state \<Rightarrow> LoginRequest \<Rightarrow> string \<Rightarrow> (http_error + JSONResponse) \<times> state"
where
  "login_loop [] st credentials session_token =
     (Inl (HTTPException 401 ''Invalid credentials''), st)"
| "login_loop (t # ts) st credentials session_token =
     (if username t = req_username credentials \<and> password t = req_password credentials
      then (Inr \<lparr>content = [(''message'', JStr ''Login successful''),
                             (''username'', JStr (req_username credentials))],
                  cookies = [set_cookie ''session_token'' session_token True ''lax'']\<rparr>,
            st\<lparr>sessions := (sessions st)(session_token \<mapsto> req_username credentials)\<rparr>)
      else login_loop ts st credentials session_token)"

definition login ::
  "teacher list \<Rightarrow> state \<Rightarrow> LoginRequest \<Rightarrow> string \<Rightarrow> (http_error + JSONResponse) \<times> state"
where
  "login teachers st credentials session_token =
     login_loop teachers st credentials session_token"

definition logout :: "state \<Rightarrow> string option \<Rightarrow> JSONResponse \<times> state" where
  "logout st session_token =
     (let st' = (case session_token of
                   None \<Rightarrow> st
                 | Some t \<Rightarrow>
                     if t \<noteq> [] \<and> t \<in> dom (sessions st)
                     then st\<lparr>sessions := (sessions st)(t := None)\<rparr>
                     else st)
      in (\<lparr>content = [(''message'', JStr ''Logged out successfully'')],
           cookies = [delete_cookie ''session_token'']\<rparr>, st'))"

definition auth_status :: "state \<Rightarrow> string option \<Rightarrow> json_object" where
  "auth_status st session_token =
     (case get_current_user st session_token of
        None \<Rightarrow> [(''authenticated'', JBool False)]
      | Some user \<Rightarrow>
          if user = [] then [(''authenticated'', JBool False)]
          else [(''authenticated'', JBool True), (''username'', JStr user)])"

definition get_activities :: "state \<Rightarrow> (string \<rightharpoonup> activity)" where
  "get_activities st = activities st"

section \<open>Signup and unregister\<close>

text \<open>
  The bodies of the two handlers, entered once the dependency \<open>require_auth\<close> has
  produced \<open>user\<close>. \<open>list.append\<close> adds at the end; \<open>list.remove\<close> deletes the first
  equal element, which is \<open>remove1\<close>.
\<close>

definition signup_for_activity ::
  "state \<Rightarrow> string \<Rightarrow> string \<Rightarrow> string \<Rightarrow> (http_error + json_object) \<times> state"
where
  "signup_for_activity st activity_name email user =
     (case activities st activity_name of
        None \<Rightarrow> (Inl (HTTPException 404 ''Activity not found''), st)
      | Some a \<Rightarrow>
          if email \<in> set (participants a)
          then (Inl (HTTPException 400 ''Student is already signed up''), st)
          else (Inr [(''message'', JStr (''Signed up '' @ email @ '' for '' @ activity_name))],
                st\<lparr>activities := (activities st)
                      (activity_name \<mapsto> a\<lparr>participants := participants a @ [email]\<rparr>)\<rparr>))"

definition unregister_from_activity ::
  "state \<Rightarrow> string \<Rightarrow> string \<Rightarrow> string \<Rightarrow> (http_error + json_object) \<times> state"
where
  "unregister_from_activity st activity_name email user =
     (case activities st activity_name of
        None \<Rightarrow> (Inl (HTTPException 404 ''Activity not found''), st)
      | Some a \<Rightarrow>
          if email \<notin> set (participants a)
          then (Inl (HTTPException 400 ''Student is not signed up for this activity''), st)
          else (Inr [(''message'',
                      JStr (''Unregistered '' @ email @ '' from '' @ activity_name))],
                st\<lparr>activities := (activities st)
                      (activity_name \<mapsto> a\<lparr>participants := remove1 email (participants a)\<rparr>)\<rparr>))"

text \<open>
  The two routes as a client reaches them: the framework resolves \<open>Depends(require_auth)\<close>
  from the cookie first, and its exception ends the request before the body runs.
\<close>

definition signup_request ::
  "state \<Rightarrow> string option \<Rightarrow> string \<Rightarrow> string \<Rightarrow> (http_error + json_object) \<times> state"
where
  "signup_request st session_token activity_name email =
     (case require_auth st session_token of
        Inl e \<Rightarrow> (Inl e, st)
      | Inr user \<Rightarrow> signup_for_activity st activity_name email user)"

definition unregister_request ::
  "state \<Rightarrow> string option \<Rightarrow> string \<Rightarrow> string \<Rightarrow> (http_error + json_object) \<times> state"
where
  "unregister_request st session_token activity_name email =
     (case require_auth st session_token of
        Inl e \<Rightarrow> (Inl e, st)
      | Inr user \<Rightarrow> unregister_from_activity st activity_name email user)"

section \<open>The error taxonomy\<close>

definition Unauthenticated :: http_error where
  "Unauthenticated = HTTPException 401 ''Authentication required''"

definition InvalidCredentials :: http_error where
  "InvalidCredentials = HTTPException 401 ''Invalid credentials''"

definition NotFound :: http_error where
  "NotFound = HTTPException 404 ''Activity not found''"

definition AlreadyRegistered :: http_error where
  "AlreadyRegistered = HTTPException 400 ''Student is already signed up''"

definition NotRegistered :: http_error where
  "NotRegistered = HTTPException 400 ''Student is not signed up for this activity''"

section \<open>Reachable states and invariants\<close>

text \<open>
  The states the running service can be in: the state after start-up, and whatever a
  request leaves behind. A token drawn by \<open>secrets.token_urlsafe(32)\<close> is the URL-safe
  base64 text of 32 random bytes, 43 characters long, hence never empty.
\<close>

inductive reachable :: "teacher list \<Rightarrow> state \<Rightarrow> bool" for teachers :: "teacher list" where
  start: "reachable teachers initial_state"
| after_login:
    "reachable teachers st \<Longrightarrow> session_token \<noteq> [] \<Longrightarrow>
     reachable teachers (snd (login teachers st credentials session_token))"
| after_logout:
    "reachable teachers st \<Longrightarrow> reachable teachers (snd (logout st session_token))"
| after_signup:
    "reachable teachers st \<Longrightarrow>
     reachable teachers (snd (signup_request st session_token activity_name email))"
| after_unregister:
    "reachable teachers st \<Longrightarrow>
     reachable teachers (snd (unregister_request st session_token activity_name email))"

text \<open>No activity lists the same email twice.\<close>

definition no_duplicates :: "state \<Rightarrow> bool" where
  "no_duplicates st \<longleftrightarrow>
     (\<forall>activity_name a. activities st activity_name = Some a \<longrightarrow> distinct (participants a))"

text \<open>
  Overwriting the capacity of every activity: \<open>f\<close> gives the new value of
  \<open>max_participants\<close> for each activity name. Used to state that no handler's answer
  depends on the stored capacities.
\<close>

definition set_max_participants :: "(string \<Rightarrow> int) \<Rightarrow> state \<Rightarrow> state" where
  "set_max_participants f st =
     st\<lparr>activities := (\<lambda>activity_name.
           map_option (\<lambda>a. a\<lparr>max_participants := f activity_name\<rparr>)
             (activities st activity_name))\<rparr>"

section \<open>Example data\<close>

text \<open>
  \<open>teachers.json\<close> is read at start-up and is not part of the program text. The
  theorems below hold for every list of teachers; the following list and states serve
  to evaluate them on concrete requests.
\<close>

definition example_teachers :: "teacher list" where
  "example_teachers =
     [\<lparr>username = ''alice'', password = ''wonderland''\<rparr>,
      \<lparr>username = ''bob'', password = ''builder''\<rparr>]"

definition alice_credentials :: LoginRequest where
  "alice_credentials = \<lparr>req_username = ''alice'', req_password = ''wonderland''\<rparr>"

text \<open>The state after start-up and one successful login that drew the token \<open>token-1\<close>.\<close>

definition logged_in :: state where
  "logged_in = snd (login example_teachers initial_state alice_credentials ''token-1'')"

text \<open>A catalog with one activity whose roster has reached its capacity.\<close>

definition full_state :: state where
  "full_state =
     \<lparr>sessions = [''token-1'' \<mapsto> ''alice''],
      activities = [''Math Club'' \<mapsto>
        \<lparr>description = ''Solve challenging problems and participate in math competitions'',
         schedule = ''Tuesdays, 3:30 PM - 4:30 PM'',
         max_participants = 2,
         participants = [''james@mergington.edu'', ''benjamin@mergington.edu'']\<rparr>]\<rparr>"

section \<open>Auxiliary facts\<close>

subsection \<open>The authentication dependency\<close>

text \<open>
  A request passes \<open>require_auth\<close> exactly when its cookie is a non-empty key of the
  session store that maps to a non-empty user name; every other request gets the 401.
\<close>

lemma require_auth_Inr:
  "require_auth st tok = Inr u \<longleftrightarrow>
     (\<exists>t. tok = Some t \<and> t \<noteq> [] \<and> sessions st t = Some u \<and> u \<noteq> [])"
  by (auto simp: require_auth_def get_current_user_def split: option.splits if_splits)

lemma require_auth_Inl:
  "require_auth st tok = Inl err \<Longrightarrow> err = Unauthenticated"
  by (auto simp: require_auth_def Unauthenticated_def split: option.splits if_splits)

lemma require_auth_activities [simp]:
  "require_auth (st\<lparr>activities := c\<rparr>) tok = require_auth st tok"
  by (simp add: require_auth_def get_current_user_def split: option.splits)

lemma require_auth_set_max [simp]:
  "require_auth (set_max_participants f st) session_token = require_auth st session_token"
  by (simp add: set_max_participants_def)

lemma require_auth_absent:
  "sessions st t = None \<Longrightarrow> require_auth st (Some t) = Inl Unauthenticated"
  by (simp add: require_auth_def get_current_user_def Unauthenticated_def dom_def)

lemma signup_request_authenticated:
  "require_auth st session_token = Inr user \<Longrightarrow>
   signup_request st session_token activity_name email =
     signup_for_activity st activity_name email user"
  by (simp add: signup_request_def)

lemma unregister_request_authenticated:
  "require_auth st session_token = Inr user \<Longrightarrow>
   unregister_request st session_token activity_name email =
     unregister_from_activity st activity_name email user"
  by (simp add: unregister_request_def)

subsection \<open>Lists\<close>

lemma remove1_split_first:
  "e \<in> set xs \<Longrightarrow> \<exists>ys zs. xs = ys @ e # zs \<and> e \<notin> set ys \<and> remove1 e xs = ys @ zs"
proof (induction xs)
  case Nil
  then show ?case by simp
next
  case (Cons x xs)
  show ?case
  proof (cases "x = e")
    case True
    then have "x # xs = [] @ e # xs \<and> e \<notin> set [] \<and> remove1 e (x # xs) = [] @ xs" by simp
    then show ?thesis by blast
  next
    case False
    with Cons obtain ys zs where "xs = ys @ e # zs" "e \<notin> set ys" "remove1 e xs = ys @ zs"
      by auto
    with False have "x # xs = (x # ys) @ e # zs \<and> e \<notin> set (x # ys)
        \<and> remove1 e (x # xs) = (x # ys) @ zs" by auto
    then show ?thesis by blast
  qed
qed

lemma remove1_append_new: "e \<notin> set xs \<Longrightarrow> remove1 e (xs @ [e]) = xs"
  by (induction xs) auto

subsection \<open>The login loop\<close>

lemma login_loop_match:
  "\<exists>t \<in> set ts. username t = req_username credentials \<and>
                    password t = req_password credentials \<Longrightarrow>
   login_loop ts st credentials session_token =
     (Inr \<lparr>content = [(''message'', JStr ''Login successful''),
                        (''username'', JStr (req_username credentials))],
             cookies = [set_cookie ''session_token'' session_token True ''lax'']\<rparr>,
      st\<lparr>sessions := (sessions st)(session_token \<mapsto> req_username credentials)\<rparr>)"
  by (induction ts) auto

lemma login_loop_no_match:
  "\<not> (\<exists>t \<in> set ts. username t = req_username credentials \<and>
                       password t = req_password credentials) \<Longrightarrow>
   login_loop ts st credentials session_token =
     (Inl (HTTPException 401 ''Invalid credentials''), st)"
  by (induction ts) auto

lemma login_loop_activities:
  "activities (snd (login_loop ts st credentials session_token)) = activities st"
  by (induction ts) auto

lemma login_activities:
  "activities (snd (login teachers st credentials session_token)) = activities st"
  by (simp add: login_def login_loop_activities)

lemma login_sessions_empty_key:
  "new_token \<noteq> [] \<Longrightarrow> sessions st [] = None \<Longrightarrow>
   sessions (snd (login teachers st credentials new_token)) [] = None"
  unfolding login_def by (induction teachers) auto

lemma login_error:
  assumes "fst (login teachers st credentials new_token) = Inl err"
  shows "err = InvalidCredentials \<and> snd (login teachers st credentials new_token) = st"
proof (cases "\<exists>t \<in> set teachers. username t = req_username credentials \<and>
                                   password t = req_password credentials")
  case True
  from login_loop_match [OF True] assms show ?thesis by (simp add: login_def)
next
  case False
  from login_loop_no_match [OF False] assms show ?thesis
    by (simp add: login_def InvalidCredentials_def)
qed

subsection \<open>Logout\<close>

lemma logout_activities:
  "activities (snd (logout st session_token)) = activities st"
  by (simp add: logout_def split: option.splits)

lemma logout_sessions_empty_key:
  "sessions st [] = None \<Longrightarrow> sessions (snd (logout st session_token)) [] = None"
  by (auto simp: logout_def split: option.splits)

lemma logout_removes_key:
  "sessions st [] = None \<Longrightarrow> sessions (snd (logout st (Some t))) t = None"
  by (auto simp: logout_def)

lemma logout_absent:
  "session_token = None \<or> (\<exists>t. session_token = Some t \<and> t \<notin> dom (sessions st)) \<Longrightarrow>
   snd (logout st session_token) = st"
  by (auto simp: logout_def split: if_splits)

subsection \<open>The two roster handlers\<close>

lemma signup_body_sessions:
  "sessions (snd (signup_for_activity st activity_name email user)) = sessions st"
  by (simp add: signup_for_activity_def split: option.splits)

lemma unregister_body_sessions:
  "sessions (snd (unregister_from_activity st activity_name email user)) = sessions st"
  by (simp add: unregister_from_activity_def split: option.splits)

lemma signup_request_sessions:
  "sessions (snd (signup_request st session_token activity_name email)) = sessions st"
  by (simp add: signup_request_def signup_body_sessions split: sum.splits)

lemma unregister_request_sessions:
  "sessions (snd (unregister_request st session_token activity_name email)) = sessions st"
  by (simp add: unregister_request_def unregister_body_sessions split: sum.splits)

lemma signup_body_error:
  "fst (signup_for_activity st activity_name email user) = Inl err \<Longrightarrow>
   err \<in> {NotFound, AlreadyRegistered} \<and>
   snd (signup_for_activity st activity_name email user) = st"
  by (auto simp: signup_for_activity_def NotFound_def AlreadyRegistered_def
           split: option.splits if_splits)

lemma unregister_body_error:
  "fst (unregister_from_activity st activity_name email user) = Inl err \<Longrightarrow>
   err \<in> {NotFound, NotRegistered} \<and>
   snd (unregister_from_activity st activity_name email user) = st"
  by (auto simp: unregister_from_activity_def NotFound_def NotRegistered_def
           split: option.splits if_splits)

lemma signup_request_error:
  assumes "fst (signup_request st session_token activity_name email) = Inl err"
  shows "err \<in> {Unauthenticated, NotFound, AlreadyRegistered} \<and>
         snd (signup_request st session_token activity_name email) = st"
proof (cases "require_auth st session_token")
  case (Inl e)
  with assms require_auth_Inl [OF Inl] show ?thesis
    by (simp add: signup_request_def)
next
  case (Inr user)
  with assms signup_body_error [of st activity_name email user err] show ?thesis
    by (simp add: signup_request_def)
qed

lemma unregister_request_error:
  assumes "fst (unregister_request st session_token activity_name email) = Inl err"
  shows "err \<in> {Unauthenticated, NotFound, NotRegistered} \<and>
         snd (unregister_request st session_token activity_name email) = st"
proof (cases "require_auth st session_token")
  case (Inl e)
  with assms require_auth_Inl [OF Inl] show ?thesis
    by (simp add: unregister_request_def)
next
  case (Inr user)
  with assms unregister_body_error [of st activity_name email user err] show ?thesis
    by (simp add: unregister_request_def)
qed

lemma signup_request_success:
  assumes "require_auth st session_token = Inr user"
    and "activities st activity_name = Some a"
    and "email \<notin> set (participants a)"
  shows "signup_request st session_token activity_name email =
           (Inr [(''message'', JStr (''Signed up '' @ email @ '' for '' @ activity_name))],
            st\<lparr>activities := (activities st)
                  (activity_name \<mapsto> a\<lparr>participants := participants a @ [email]\<rparr>)\<rparr>)"
  using assms by (simp add: signup_request_def signup_for_activity_def)

lemma unregister_request_success:
  assumes "require_auth st session_token = Inr user"
    and "activities st activity_name = Some a"
    and "email \<in> set (participants a)"
  shows "unregister_request st session_token activity_name email =
           (Inr [(''message'',
                  JStr (''Unregistered '' @ email @ '' from '' @ activity_name))],
            st\<lparr>activities := (activities st)
                  (activity_name \<mapsto> a\<lparr>participants := remove1 email (participants a)\<rparr>)\<rparr>)"
  using assms by (simp add: unregister_request_def unregister_from_activity_def)

lemma signup_body_frame:
  assumes "fst (signup_for_activity st activity_name email user) = Inr r"
  shows "\<exists>a. activities st activity_name = Some a \<and>
             snd (signup_for_activity st activity_name email user) =
               st\<lparr>activities := (activities st)
                     (activity_name \<mapsto> a\<lparr>participants := participants a @ [email]\<rparr>)\<rparr>"
  using assms
  by (auto simp: signup_for_activity_def split: option.splits if_splits)

lemma unregister_body_frame:
  assumes "fst (unregister_from_activity st activity_name email user) = Inr r"
  shows "\<exists>a. activities st activity_name = Some a \<and>
             snd (unregister_from_activity st activity_name email user) =
               st\<lparr>activities := (activities st)
                     (activity_name \<mapsto>
                        a\<lparr>participants := remove1 email (participants a)\<rparr>)\<rparr>"
  using assms
  by (auto simp: unregister_from_activity_def split: option.splits if_splits)

lemma signup_request_frame:
  assumes "fst (signup_request st session_token activity_name email) = Inr r"
  shows "\<exists>a. activities st activity_name = Some a \<and>
             snd (signup_request st session_token activity_name email) =
               st\<lparr>activities := (activities st)
                     (activity_name \<mapsto> a\<lparr>participants := participants a @ [email]\<rparr>)\<rparr>"
proof (cases "require_auth st session_token")
  case (Inl e)
  with assms show ?thesis by (simp add: signup_request_def)
next
  case (Inr user)
  with assms signup_body_frame [of st activity_name email user r] show ?thesis
    by (simp add: signup_request_def)
qed

lemma unregister_request_frame:
  assumes "fst (unregister_request st session_token activity_name email) = Inr r"
  shows "\<exists>a. activities st activity_name = Some a \<and>
             snd (unregister_request st session_token activity_name email) =
               st\<lparr>activities := (activities st)
                     (activity_name \<mapsto>
                        a\<lparr>participants := remove1 email (participants a)\<rparr>)\<rparr>"
proof (cases "require_auth st session_token")
  case (Inl e)
  with assms show ?thesis by (simp add: unregister_request_def)
next
  case (Inr user)
  with assms unregister_body_frame [of st activity_name email user r] show ?thesis
    by (simp add: unregister_request_def)
qed

lemma frame_of_update:
  assumes "activities st activity_name = Some a"
    and "st' = st\<lparr>activities := (activities st)(activity_name \<mapsto> a\<lparr>participants := ps\<rparr>)\<rparr>"
  shows "sessions st' = sessions st \<and>
         (\<forall>other. other \<noteq> activity_name \<longrightarrow> activities st' other = activities st other) \<and>
         (\<exists>a'. activities st' activity_name = Some a' \<and>
               description a' = description a \<and>
               schedule a' = schedule a \<and>
               max_participants a' = max_participants a)"
  using assms by simp

subsection \<open>Invariants of the reachable states\<close>

lemma no_duplicates_cong:
  "activities st' = activities st \<Longrightarrow> no_duplicates st' = no_duplicates st"
  by (simp add: no_duplicates_def)

lemma no_duplicates_signup_body:
  assumes "no_duplicates st"
  shows "no_duplicates (snd (signup_for_activity st activity_name email user))"
proof (cases "activities st activity_name")
  case None
  with assms show ?thesis by (simp add: signup_for_activity_def)
next
  case (Some a)
  with assms have "distinct (participants a)" by (simp add: no_duplicates_def)
  with Some assms show ?thesis
    by (auto simp: signup_for_activity_def no_duplicates_def)
qed

lemma no_duplicates_unregister_body:
  assumes "no_duplicates st"
  shows "no_duplicates (snd (unregister_from_activity st activity_name email user))"
proof (cases "activities st activity_name")
  case None
  with assms show ?thesis by (simp add: unregister_from_activity_def)
next
  case (Some a)
  with assms have "distinct (participants a)" by (simp add: no_duplicates_def)
  with Some assms show ?thesis
    by (auto simp: unregister_from_activity_def no_duplicates_def)
qed

lemma no_duplicates_signup_request:
  "no_duplicates st \<Longrightarrow>
   no_duplicates (snd (signup_request st session_token activity_name email))"
  by (simp add: signup_request_def no_duplicates_signup_body split: sum.splits)

lemma no_duplicates_unregister_request:
  "no_duplicates st \<Longrightarrow>
   no_duplicates (snd (unregister_request st session_token activity_name email))"
  by (simp add: unregister_request_def no_duplicates_unregister_body split: sum.splits)

lemma no_duplicates_login:
  "no_duplicates st \<Longrightarrow> no_duplicates (snd (login teachers st credentials session_token))"
  by (simp add: no_duplicates_cong [OF login_activities])

lemma no_duplicates_logout:
  "no_duplicates st \<Longrightarrow> no_duplicates (snd (logout st session_token))"
  by (simp add: no_duplicates_cong [OF logout_activities])

lemma seed_participants_distinct:
  "(activity_name, a) \<in> set seed \<Longrightarrow> distinct (participants a)"
  by (auto simp: seed_def)

lemma no_duplicates_initial: "no_duplicates initial_state"
  unfolding no_duplicates_def initial_state_def
  by (auto dest!: map_of_SomeD seed_participants_distinct)

lemma initial_sessions: "sessions initial_state = Map.empty"
  by (simp add: initial_state_def)

lemma reachable_no_duplicates: "reachable teachers st \<Longrightarrow> no_duplicates st"
  by (induction rule: reachable.induct)
     (simp_all add: no_duplicates_initial no_duplicates_login no_duplicates_logout
        no_duplicates_signup_request no_duplicates_unregister_request)

lemma reachable_no_empty_token: "reachable teachers st \<Longrightarrow> sessions st [] = None"
  by (induction rule: reachable.induct)
     (simp_all add: initial_sessions login_sessions_empty_key logout_sessions_empty_key
        signup_request_sessions unregister_request_sessions)

subsection \<open>Capacities\<close>

lemma signup_body_set_max:
  "signup_for_activity (set_max_participants f st) activity_name email user =
     (fst (signup_for_activity st activity_name email user),
      set_max_participants f (snd (signup_for_activity st activity_name email user)))"
  by (cases "activities st activity_name")
     (auto simp: signup_for_activity_def set_max_participants_def fun_eq_iff)

lemma unregister_body_set_max:
  "unregister_from_activity (set_max_participants f st) activity_name email user =
     (fst (unregister_from_activity st activity_name email user),
      set_max_participants f (snd (unregister_from_activity st activity_name email user)))"
  by (cases "activities st activity_name")
     (auto simp: unregister_from_activity_def set_max_participants_def fun_eq_iff)

lemma signup_request_set_max:
  "signup_request (set_max_participants f st) session_token activity_name email =
     (fst (signup_request st session_token activity_name email),
      set_max_participants f (snd (signup_request st session_token activity_name email)))"
  by (cases "require_auth st session_token")
     (simp_all add: signup_request_def signup_body_set_max)

lemma unregister_request_set_max:
  "unregister_request (set_max_participants f st) session_token activity_name email =
     (fst (unregister_request st session_token activity_name email),
      set_max_participants f (snd (unregister_request st session_token activity_name email)))"
  by (cases "require_auth st session_token")
     (simp_all add: unregister_request_def unregister_body_set_max)

lemma login_loop_set_max:
  "login_loop ts (set_max_participants f st) credentials new_token =
     (fst (login_loop ts st credentials new_token),
      set_max_participants f (snd (login_loop ts st credentials new_token)))"
  by (induction ts) (auto simp: set_max_participants_def)

lemma login_set_max:
  "login teachers (set_max_participants f st) credentials new_token =
     (fst (login teachers st credentials new_token),
      set_max_participants f (snd (login teachers st credentials new_token)))"
  by (simp add: login_def login_loop_set_max)

lemma logout_set_max:
  "logout (set_max_participants f st) session_token =
     (fst (logout st session_token),
      set_max_participants f (snd (logout st session_token)))"
  by (auto simp: logout_def set_max_participants_def split: option.splits)

subsection \<open>The example states\<close>

lemma initial_chess_club:
  "\<exists>a. activities initial_state ''Chess Club'' = Some a \<and>
       participants a = [''michael@mergington.edu'', ''daniel@mergington.edu'']"
  by (simp add: initial_state_def seed_def)

lemma initial_no_knitting: "''Knitting Club'' \<notin> dom (activities initial_state)"
  by (simp add: initial_state_def seed_def dom_def)

lemma logged_in_eq:
  "logged_in = initial_state\<lparr>sessions := [''token-1'' \<mapsto> ''alice'']\<rparr>"
  by (simp add: logged_in_def login_def example_teachers_def alice_credentials_def
        initial_sessions)

lemma logged_in_reachable: "reachable example_teachers logged_in"
  unfolding logged_in_def by (rule reachable.after_login [OF reachable.start]) simp

lemma logged_in_auth: "require_auth logged_in (Some ''token-1'') = Inr ''alice''"
  by (simp add: logged_in_eq require_auth_Inr)

lemma logged_in_chess_club:
  "\<exists>a. activities logged_in ''Chess Club'' = Some a \<and>
       participants a = [''michael@mergington.edu'', ''daniel@mergington.edu'']"
  using initial_chess_club by (simp add: logged_in_eq)

lemma logged_in_no_duplicates: "no_duplicates logged_in"
  using logged_in_reachable by (rule reachable_no_duplicates)

lemma full_state_auth: "require_auth full_state (Some ''token-1'') = Inr ''alice''"
  by (simp add: full_state_def require_auth_Inr)

lemma full_state_math_club:
  "\<exists>a. activities full_state ''Math Club'' = Some a \<and>
       participants a = [''james@mergington.edu'', ''benjamin@mergington.edu''] \<and>
       max_participants a = 2"
  by (simp add: full_state_def)

section \<open>Signup\<close>

text \<open>
  C1. For every state of the catalog, every activity name and every email, the body of
  the signup handler (entered once the request is authenticated, see
  \<open>signup_request_authenticated\<close>) fails with \<open>NotFound\<close> when the name is not a key of
  the catalog; otherwise it fails with \<open>AlreadyRegistered\<close> when the email is already in
  the participants of that activity; otherwise it answers with the success message and
  the participants of that activity are the former list followed by the email. The two
  failures leave the state as it was.
\<close>

theorem signup_for_activity_spec:
  "(activity_name \<notin> dom (activities st) \<longrightarrow>
      signup_for_activity st activity_name email user = (Inl NotFound, st)) \<and>
   (\<forall>a. activities st activity_name = Some a \<and> email \<in> set (participants a) \<longrightarrow>
      signup_for_activity st activity_name email user = (Inl AlreadyRegistered, st)) \<and>
   (\<forall>a. activities st activity_name = Some a \<and> email \<notin> set (participants a) \<longrightarrow>
      fst (signup_for_activity st activity_name email user) =
        Inr [(''message'', JStr (''Signed up '' @ email @ '' for '' @ activity_name))] \<and>
      map_option participants
        (activities (snd (signup_for_activity st activity_name email user)) activity_name) =
        Some (participants a @ [email]))"
proof (intro conjI allI impI)
  assume "activity_name \<notin> dom (activities st)"
  then have "activities st activity_name = None" by blast
  then show "signup_for_activity st activity_name email user = (Inl NotFound, st)"
    by (simp add: signup_for_activity_def NotFound_def)
next
  fix a assume "activities st activity_name = Some a \<and> email \<in> set (participants a)"
  then show "signup_for_activity st activity_name email user = (Inl AlreadyRegistered, st)"
    by (simp add: signup_for_activity_def AlreadyRegistered_def)
next
  fix a assume h: "activities st activity_name = Some a \<and> email \<notin> set (participants a)"
  then show "fst (signup_for_activity st activity_name email user) =
        Inr [(''message'', JStr (''Signed up '' @ email @ '' for '' @ activity_name))]"
    by (simp add: signup_for_activity_def)
  from h show "map_option participants
        (activities (snd (signup_for_activity st activity_name email user)) activity_name) =
        Some (participants a @ [email])"
    by (simp add: signup_for_activity_def)
qed

theorem signup_for_activity_spec_witness:
  "''Knitting Club'' \<notin> dom (activities initial_state) \<and>
   signup_for_activity initial_state ''Knitting Club'' ''new@mergington.edu'' ''teacher'' =
     (Inl NotFound, initial_state) \<and>
   signup_for_activity initial_state ''Chess Club'' ''daniel@mergington.edu'' ''teacher'' =
     (Inl AlreadyRegistered, initial_state) \<and>
   fst (signup_for_activity initial_state ''Chess Club'' ''new@mergington.edu'' ''teacher'') =
     Inr [(''message'', JStr ''Signed up new@mergington.edu for Chess Club'')] \<and>
   map_option participants
     (activities
        (snd (signup_for_activity initial_state ''Chess Club'' ''new@mergington.edu''
                ''teacher''))
        ''Chess Club'') =
     Some [''michael@mergington.edu'', ''daniel@mergington.edu'', ''new@mergington.edu'']"
proof -
  from initial_chess_club obtain a where
    a: "activities initial_state ''Chess Club'' = Some a"
       "participants a = [''michael@mergington.edu'', ''daniel@mergington.edu'']"
    by blast
  have old: "activities initial_state ''Chess Club'' = Some a \<and>
             ''daniel@mergington.edu'' \<in> set (participants a)"
    using a by simp
  have new: "activities initial_state ''Chess Club'' = Some a \<and>
             ''new@mergington.edu'' \<notin> set (participants a)"
    using a by simp
  show ?thesis
    using initial_no_knitting a old new
      signup_for_activity_spec
        [of "''Knitting Club''" initial_state "''new@mergington.edu''" "''teacher''"]
      signup_for_activity_spec
        [of "''Chess Club''" initial_state "''daniel@mergington.edu''" "''teacher''"]
      signup_for_activity_spec
        [of "''Chess Club''" initial_state "''new@mergington.edu''" "''teacher''"]
    by simp
qed

section \<open>Unregister\<close>

text \<open>
  C2. For every state of the catalog, every activity name and every email, the body of
  the unregister handler (entered once the request is authenticated, see
  \<open>unregister_request_authenticated\<close>) fails with \<open>NotFound\<close> when the name is not a key
  of the catalog; otherwise it fails with \<open>NotRegistered\<close> when the email is not in the
  participants of that activity; otherwise it answers with the success message and the
  participants of that activity are the former list without the first entry equal to
  the email: the former list is \<open>ys @ email # zs\<close> with no occurrence in \<open>ys\<close>, and the
  new list is \<open>ys @ zs\<close>.
\<close>

theorem unregister_from_activity_spec:
  "(activity_name \<notin> dom (activities st) \<longrightarrow>
      unregister_from_activity st activity_name email user = (Inl NotFound, st)) \<and>
   (\<forall>a. activities st activity_name = Some a \<and> email \<notin> set (participants a) \<longrightarrow>
      unregister_from_activity st activity_name email user = (Inl NotRegistered, st)) \<and>
   (\<forall>a. activities st activity_name = Some a \<and> email \<in> set (participants a) \<longrightarrow>
      fst (unregister_from_activity st activity_name email user) =
        Inr [(''message'', JStr (''Unregistered '' @ email @ '' from '' @ activity_name))] \<and>
      (\<exists>ys zs. participants a = ys @ email # zs \<and> email \<notin> set ys \<and>
         map_option participants
           (activities (snd (unregister_from_activity st activity_name email user))
              activity_name) = Some (ys @ zs)))"
proof (intro conjI allI impI)
  assume "activity_name \<notin> dom (activities st)"
  then have "activities st activity_name = None" by blast
  then show "unregister_from_activity st activity_name email user = (Inl NotFound, st)"
    by (simp add: unregister_from_activity_def NotFound_def)
next
  fix a assume "activities st activity_name = Some a \<and> email \<notin> set (participants a)"
  then show "unregister_from_activity st activity_name email user = (Inl NotRegistered, st)"
    by (simp add: unregister_from_activity_def NotRegistered_def)
next
  fix a assume h: "activities st activity_name = Some a \<and> email \<in> set (participants a)"
  then show "fst (unregister_from_activity st activity_name email user) =
        Inr [(''message'', JStr (''Unregistered '' @ email @ '' from '' @ activity_name))]"
    by (simp add: unregister_from_activity_def)
  from h have "email \<in> set (participants a)" by simp
  from remove1_split_first [OF this]
  obtain ys zs where yz: "participants a = ys @ email # zs" "email \<notin> set ys"
     "remove1 email (participants a) = ys @ zs"
    by blast
  from h have "map_option participants
           (activities (snd (unregister_from_activity st activity_name email user))
              activity_name) = Some (remove1 email (participants a))"
    by (simp add: unregister_from_activity_def)
  with yz have "participants a = ys @ email # zs \<and> email \<notin> set ys \<and>
         map_option participants
           (activities (snd (unregister_from_activity st activity_name email user))
              activity_name) = Some (ys @ zs)"
    by simp
  then show "\<exists>ys zs. participants a = ys @ email # zs \<and> email \<notin> set ys \<and>
         map_option participants
           (activities (snd (unregister_from_activity st activity_name email user))
              activity_name) = Some (ys @ zs)"
    by blast
qed

theorem unregister_from_activity_spec_witness:
  "''Knitting Club'' \<notin> dom (activities initial_state) \<and>
   unregister_from_activity initial_state ''Knitting Club'' ''new@mergington.edu''
       ''teacher'' = (Inl NotFound, initial_state) \<and>
   unregister_from_activity initial_state ''Chess Club'' ''new@mergington.edu''
       ''teacher'' = (Inl NotRegistered, initial_state) \<and>
   fst (unregister_from_activity initial_state ''Chess Club'' ''michael@mergington.edu''
          ''teacher'') =
     Inr [(''message'', JStr ''Unregistered michael@mergington.edu from Chess Club'')] \<and>
   map_option participants
     (activities
        (snd (unregister_from_activity initial_state ''Chess Club''
                ''michael@mergington.edu'' ''teacher''))
        ''Chess Club'') =
     Some [''daniel@mergington.edu'']"
proof -
  from initial_chess_club obtain a where
    a: "activities initial_state ''Chess Club'' = Some a"
       "participants a = [''michael@mergington.edu'', ''daniel@mergington.edu'']"
    by blast
  have absent: "activities initial_state ''Chess Club'' = Some a \<and>
             ''new@mergington.edu'' \<notin> set (participants a)"
    using a by simp
  have present: "activities initial_state ''Chess Club'' = Some a \<and>
             ''michael@mergington.edu'' \<in> set (participants a)"
    using a by simp
  note third = unregister_from_activity_spec
        [of "''Chess Club''" initial_state "''michael@mergington.edu''" "''teacher''"]
  from third present obtain ys zs where
    yz: "participants a = ys @ ''michael@mergington.edu'' # zs"
        "''michael@mergington.edu'' \<notin> set ys"
        "map_option participants
           (activities
              (snd (unregister_from_activity initial_state ''Chess Club''
                      ''michael@mergington.edu'' ''teacher''))
              ''Chess Club'') = Some (ys @ zs)"
    by blast
  from yz(1,2) a(2) have "ys = [] \<and> zs = [''daniel@mergington.edu'']"
    by (cases ys) auto
  with yz(3) have removed: "map_option participants
           (activities
              (snd (unregister_from_activity initial_state ''Chess Club''
                      ''michael@mergington.edu'' ''teacher''))
              ''Chess Club'') = Some [''daniel@mergington.edu'']"
    by simp
  show ?thesis
    using initial_no_knitting absent present removed third
      unregister_from_activity_spec
        [of "''Knitting Club''" initial_state "''new@mergington.edu''" "''teacher''"]
      unregister_from_activity_spec
        [of "''Chess Club''" initial_state "''new@mergington.edu''" "''teacher''"]
    by simp
qed

section \<open>Requests without a session\<close>

text \<open>
  C3. When the session cookie is absent, or carries a token that is not a key of the
  session store, the signup and the unregister routes both fail with \<open>Unauthenticated\<close>
  (status 401), whatever the activity name and the email. The answer is the same for
  every catalog \<open>c\<close> put in place of the current one, and the state is returned as it
  was: the catalog is neither read nor written.
\<close>

theorem unauthenticated_rejected:
  assumes "session_token = None \<or> (\<exists>t. session_token = Some t \<and> t \<notin> dom (sessions st))"
  shows "signup_request (st\<lparr>activities := c\<rparr>) session_token activity_name email =
           (Inl Unauthenticated, st\<lparr>activities := c\<rparr>) \<and>
         unregister_request (st\<lparr>activities := c\<rparr>) session_token activity_name email =
           (Inl Unauthenticated, st\<lparr>activities := c\<rparr>)"
proof -
  have "require_auth st session_token = Inl Unauthenticated"
    using assms
    by (auto simp: require_auth_def get_current_user_def Unauthenticated_def
          split: option.splits)
  then show ?thesis
    by (simp add: signup_request_def unregister_request_def)
qed

theorem unauthenticated_rejected_witness:
  "''stale-token'' \<notin> dom (sessions initial_state) \<and>
   signup_request initial_state None ''Chess Club'' ''new@mergington.edu'' =
     (Inl Unauthenticated, initial_state) \<and>
   unregister_request initial_state None ''Chess Club'' ''michael@mergington.edu'' =
     (Inl Unauthenticated, initial_state) \<and>
   signup_request initial_state (Some ''stale-token'') ''Chess Club''
       ''new@mergington.edu'' = (Inl Unauthenticated, initial_state) \<and>
   unregister_request initial_state (Some ''stale-token'') ''Chess Club''
       ''michael@mergington.edu'' = (Inl Unauthenticated, initial_state)"
proof -
  have stale: "''stale-token'' \<notin> dom (sessions initial_state)"
    by (simp add: initial_sessions)
  have same: "initial_state\<lparr>activities := activities initial_state\<rparr> = initial_state"
    by simp
  show ?thesis
    using stale
      unauthenticated_rejected
        [of None initial_state "activities initial_state" "''Chess Club''"
            "''new@mergington.edu''"]
      unauthenticated_rejected
        [of None initial_state "activities initial_state" "''Chess Club''"
            "''michael@mergington.edu''"]
      unauthenticated_rejected
        [of "Some ''stale-token''" initial_state "activities initial_state"
            "''Chess Club''" "''new@mergington.edu''"]
      unauthenticated_rejected
        [of "Some ''stale-token''" initial_state "activities initial_state"
            "''Chess Club''" "''michael@mergington.edu''"]
    by (simp add: same)
qed

section \<open>No duplicate participant\<close>

text \<open>
  C4. No roster of the seeded catalog lists an email twice; signup, unregister, login and
  logout each lead from a state whose rosters are free of duplicates to such a state;
  hence every state the service reaches from the seeded catalog has rosters free of
  duplicates.
\<close>

theorem no_duplicates_invariant:
  "no_duplicates initial_state \<and>
   (no_duplicates st \<longrightarrow>
      no_duplicates (snd (signup_request st session_token activity_name email)) \<and>
      no_duplicates (snd (unregister_request st session_token activity_name email)) \<and>
      no_duplicates (snd (login teachers st credentials new_token)) \<and>
      no_duplicates (snd (logout st session_token))) \<and>
   (reachable teachers st \<longrightarrow> no_duplicates st)"
  by (simp add: no_duplicates_initial no_duplicates_login no_duplicates_logout
        no_duplicates_signup_request no_duplicates_unregister_request
        reachable_no_duplicates)

theorem no_duplicates_invariant_witness:
  "no_duplicates initial_state \<and>
   reachable example_teachers logged_in \<and>
   no_duplicates logged_in \<and>
   no_duplicates
     (snd (signup_request logged_in (Some ''token-1'') ''Chess Club'' ''new@mergington.edu'')) \<and>
   no_duplicates
     (snd (unregister_request logged_in (Some ''token-1'') ''Chess Club''
             ''new@mergington.edu'')) \<and>
   no_duplicates (snd (logout logged_in (Some ''token-1'')))"
proof -
  note at_start =
    no_duplicates_invariant
      [of initial_state None "''Chess Club''" "''new@mergington.edu''" example_teachers
          alice_credentials "''token-1''"]
  from at_start have start: "no_duplicates initial_state" by blast
  with at_start have inv: "no_duplicates logged_in"
    unfolding logged_in_def by blast
  note later =
    no_duplicates_invariant
      [of logged_in "Some ''token-1''" "''Chess Club''" "''new@mergington.edu''"
          example_teachers alice_credentials "''token-2''"]
  from later inv logged_in_reachable start show ?thesis by blast
qed

section \<open>Errors change nothing\<close>

text \<open>
  C5. Whenever the signup route, the unregister route or login answers with an error, the
  error is one of \<open>Unauthenticated\<close>, \<open>NotFound\<close>, \<open>AlreadyRegistered\<close>,
  \<open>NotRegistered\<close>, \<open>InvalidCredentials\<close> (as the route allows), and the state, that is
  the catalog and the session store, is exactly the one before the call.
\<close>

theorem errors_leave_state_unchanged:
  "(fst (signup_request st session_token activity_name email) = Inl err \<longrightarrow>
      err \<in> {Unauthenticated, NotFound, AlreadyRegistered} \<and>
      snd (signup_request st session_token activity_name email) = st) \<and>
   (fst (unregister_request st session_token activity_name email) = Inl err \<longrightarrow>
      err \<in> {Unauthenticated, NotFound, NotRegistered} \<and>
      snd (unregister_request st session_token activity_name email) = st) \<and>
   (fst (login teachers st credentials new_token) = Inl err \<longrightarrow>
      err = InvalidCredentials \<and>
      snd (login teachers st credentials new_token) = st)"
  using signup_request_error unregister_request_error login_error by blast

theorem errors_leave_state_unchanged_witness:
  "fst (signup_request logged_in None ''Chess Club'' ''new@mergington.edu'') =
     Inl Unauthenticated \<and>
   snd (signup_request logged_in None ''Chess Club'' ''new@mergington.edu'') = logged_in \<and>
   fst (unregister_request logged_in (Some ''token-1'') ''Chess Club''
          ''new@mergington.edu'') = Inl NotRegistered \<and>
   snd (unregister_request logged_in (Some ''token-1'') ''Chess Club''
          ''new@mergington.edu'') = logged_in \<and>
   fst (login example_teachers logged_in
          \<lparr>req_username = ''alice'', req_password = ''Wonderland''\<rparr> ''token-2'') =
     Inl InvalidCredentials \<and>
   snd (login example_teachers logged_in
          \<lparr>req_username = ''alice'', req_password = ''Wonderland''\<rparr> ''token-2'') =
     logged_in"
proof -
  have e1: "fst (signup_request logged_in None ''Chess Club'' ''new@mergington.edu'') =
              Inl Unauthenticated"
    by (simp add: signup_request_def require_auth_def get_current_user_def
          Unauthenticated_def)
  from logged_in_chess_club obtain a where
    a: "activities logged_in ''Chess Club'' = Some a"
       "participants a = [''michael@mergington.edu'', ''daniel@mergington.edu'']"
    by blast
  have e2: "fst (unregister_request logged_in (Some ''token-1'') ''Chess Club''
                   ''new@mergington.edu'') = Inl NotRegistered"
    using a logged_in_auth
    by (simp add: unregister_request_def unregister_from_activity_def NotRegistered_def)
  have e3: "fst (login example_teachers logged_in
                   \<lparr>req_username = ''alice'', req_password = ''Wonderland''\<rparr> ''token-2'') =
              Inl InvalidCredentials"
    by (simp add: login_def example_teachers_def InvalidCredentials_def)
  show ?thesis
    using e1 e2 e3
      errors_leave_state_unchanged
        [of logged_in None "''Chess Club''" "''new@mergington.edu''" Unauthenticated
            example_teachers alice_credentials "''token-2''"]
      errors_leave_state_unchanged
        [of logged_in "Some ''token-1''" "''Chess Club''" "''new@mergington.edu''"
            NotRegistered example_teachers alice_credentials "''token-2''"]
      errors_leave_state_unchanged
        [of logged_in None "''Chess Club''" "''new@mergington.edu''" InvalidCredentials
            example_teachers "\<lparr>req_username = ''alice'', req_password = ''Wonderland''\<rparr>"
            "''token-2''"]
    by blast
qed

section \<open>Capacity is not enforced\<close>

text \<open>
  C6. An authenticated signup for an existing activity, with an email that its roster
  does not hold, succeeds and appends the email, whatever \<open>max_participants\<close> is, also
  when the roster is already as long as the capacity or longer. Moreover no answer
  depends on the stored capacities: overwriting \<open>max_participants\<close> of every activity by
  arbitrary values \<open>f\<close> before a signup, an unregister, a login or a logout gives the same
  answer, and the same final state up to that overwriting.
\<close>

theorem signup_ignores_capacity:
  "(require_auth st session_token = Inr user \<and>
    activities st activity_name = Some a \<and>
    email \<notin> set (participants a) \<longrightarrow>
      fst (signup_request st session_token activity_name email) =
        Inr [(''message'', JStr (''Signed up '' @ email @ '' for '' @ activity_name))] \<and>
      map_option participants
        (activities (snd (signup_request st session_token activity_name email))
           activity_name) = Some (participants a @ [email])) \<and>
   signup_request (set_max_participants f st) session_token activity_name email =
     (fst (signup_request st session_token activity_name email),
      set_max_participants f (snd (signup_request st session_token activity_name email))) \<and>
   unregister_request (set_max_participants f st) session_token activity_name email =
     (fst (unregister_request st session_token activity_name email),
      set_max_participants f
        (snd (unregister_request st session_token activity_name email))) \<and>
   login teachers (set_max_participants f st) credentials new_token =
     (fst (login teachers st credentials new_token),
      set_max_participants f (snd (login teachers st credentials new_token))) \<and>
   logout (set_max_participants f st) session_token =
     (fst (logout st session_token),
      set_max_participants f (snd (logout st session_token)))"
proof (intro conjI impI)
  assume h: "require_auth st session_token = Inr user \<and>
    activities st activity_name = Some a \<and>
    email \<notin> set (participants a)"
  then have eq: "signup_request st session_token activity_name email =
           (Inr [(''message'', JStr (''Signed up '' @ email @ '' for '' @ activity_name))],
            st\<lparr>activities := (activities st)
                  (activity_name \<mapsto> a\<lparr>participants := participants a @ [email]\<rparr>)\<rparr>)"
    using signup_request_success by blast
  show "fst (signup_request st session_token activity_name email) =
        Inr [(''message'', JStr (''Signed up '' @ email @ '' for '' @ activity_name))]"
    by (simp add: eq)
  show "map_option participants
        (activities (snd (signup_request st session_token activity_name email))
           activity_name) = Some (participants a @ [email])"
    by (simp add: eq)
qed (rule signup_request_set_max unregister_request_set_max login_set_max logout_set_max)+

theorem signup_ignores_capacity_witness:
  "require_auth full_state (Some ''token-1'') = Inr ''alice'' \<and>
   map_option participants (activities full_state ''Math Club'') =
     Some [''james@mergington.edu'', ''benjamin@mergington.edu''] \<and>
   map_option max_participants (activities full_state ''Math Club'') = Some 2 \<and>
   fst (signup_request full_state (Some ''token-1'') ''Math Club'' ''new@mergington.edu'') =
     Inr [(''message'', JStr ''Signed up new@mergington.edu for Math Club'')] \<and>
   map_option participants
     (activities
        (snd (signup_request full_state (Some ''token-1'') ''Math Club''
                ''new@mergington.edu''))
        ''Math Club'') =
     Some [''james@mergington.edu'', ''benjamin@mergington.edu'', ''new@mergington.edu'']"
proof -
  from full_state_math_club obtain a where
    a: "activities full_state ''Math Club'' = Some a"
       "participants a = [''james@mergington.edu'', ''benjamin@mergington.edu'']"
       "max_participants a = 2"
    by blast
  have fresh: "''new@mergington.edu'' \<notin> set (participants a)"
    using a(2) by simp
  from full_state_auth a(1) fresh
    signup_ignores_capacity
      [of full_state "Some ''token-1''" "''alice''" "''Math Club''" a
          "''new@mergington.edu''" "\<lambda>_. 100" example_teachers alice_credentials
          "''token-2''"]
  have "fst (signup_request full_state (Some ''token-1'') ''Math Club''
               ''new@mergington.edu'') =
          Inr [(''message'', JStr (''Signed up '' @ ''new@mergington.edu'' @ '' for '' @
                                    ''Math Club''))] \<and>
        map_option participants
          (activities
             (snd (signup_request full_state (Some ''token-1'') ''Math Club''
                     ''new@mergington.edu''))
             ''Math Club'') = Some (participants a @ [''new@mergington.edu''])"
    by blast
  with a full_state_auth show ?thesis by simp
qed

section \<open>Login\<close>




section \<open>Logout\<close>

text \<open>
  C8. In every reachable state, after a logout with token \<open>t\<close> the token is no key of
  the session store; when it was no key before, or no cookie was sent, logout leaves the
  state as it was. Afterwards resolving \<open>t\<close> gives no user, the status route reports
  the request as not authenticated, and a signup or an unregister request carrying \<open>t\<close>
  fails with \<open>Unauthenticated\<close>.
\<close>

theorem logout_destroys_session:
  assumes "reachable teachers st"
  shows "t \<notin> dom (sessions (snd (logout st (Some t)))) \<and>
         (t \<notin> dom (sessions st) \<longrightarrow> snd (logout st (Some t)) = st) \<and>
         snd (logout st None) = st \<and>
         get_current_user (snd (logout st (Some t))) (Some t) = None \<and>
         auth_status (snd (logout st (Some t))) (Some t) =
           [(''authenticated'', JBool False)] \<and>
         signup_request (snd (logout st (Some t))) (Some t) activity_name email =
           (Inl Unauthenticated, snd (logout st (Some t))) \<and>
         unregister_request (snd (logout st (Some t))) (Some t) activity_name email =
           (Inl Unauthenticated, snd (logout st (Some t)))"
proof -
  from assms have "sessions st [] = None" by (rule reachable_no_empty_token)
  then have gone: "sessions (snd (logout st (Some t))) t = None"
    by (rule logout_removes_key)
  then have auth: "require_auth (snd (logout st (Some t))) (Some t) = Inl Unauthenticated"
    by (rule require_auth_absent)
  have "t \<notin> dom (sessions (snd (logout st (Some t))))"
    using gone by (simp add: dom_def)
  moreover have "t \<notin> dom (sessions st) \<longrightarrow> snd (logout st (Some t)) = st"
    by (simp add: logout_absent)
  moreover have "snd (logout st None) = st"
    by (simp add: logout_absent)
  moreover have "get_current_user (snd (logout st (Some t))) (Some t) = None"
    using gone by (simp add: get_current_user_def dom_def)
  moreover have "auth_status (snd (logout st (Some t))) (Some t) =
                   [(''authenticated'', JBool False)]"
    using gone by (simp add: auth_status_def get_current_user_def dom_def)
  moreover have
    "signup_request (snd (logout st (Some t))) (Some t) activity_name email =
       (Inl Unauthenticated, snd (logout st (Some t)))"
    using auth by (simp add: signup_request_def)
  moreover have
    "unregister_request (snd (logout st (Some t))) (Some t) activity_name email =
       (Inl Unauthenticated, snd (logout st (Some t)))"
    using auth by (simp add: unregister_request_def)
  ultimately show ?thesis by blast
qed

theorem logout_destroys_session_witness:
  "reachable example_teachers logged_in \<and>
   require_auth logged_in (Some ''token-1'') = Inr ''alice'' \<and>
   ''token-1'' \<notin> dom (sessions (snd (logout logged_in (Some ''token-1'')))) \<and>
   ''token-9'' \<notin> dom (sessions logged_in) \<and>
   snd (logout logged_in (Some ''token-9'')) = logged_in \<and>
   snd (logout logged_in None) = logged_in \<and>
   get_current_user (snd (logout logged_in (Some ''token-1''))) (Some ''token-1'') = None \<and>
   auth_status logged_in (Some ''token-1'') =
     [(''authenticated'', JBool True), (''username'', JStr ''alice'')] \<and>
   auth_status (snd (logout logged_in (Some ''token-1''))) (Some ''token-1'') =
     [(''authenticated'', JBool False)] \<and>
   signup_request (snd (logout logged_in (Some ''token-1''))) (Some ''token-1'')
       ''Chess Club'' ''new@mergington.edu'' =
     (Inl Unauthenticated, snd (logout logged_in (Some ''token-1''))) \<and>
   unregister_request (snd (logout logged_in (Some ''token-1''))) (Some ''token-1'')
       ''Chess Club'' ''michael@mergington.edu'' =
     (Inl Unauthenticated, snd (logout logged_in (Some ''token-1'')))"
proof -
  have other: "''token-9'' \<notin> dom (sessions logged_in)"
    by (simp add: logged_in_eq)
  have before: "auth_status logged_in (Some ''token-1'') =
     [(''authenticated'', JBool True), (''username'', JStr ''alice'')]"
    by (simp add: logged_in_eq auth_status_def get_current_user_def)
  from other before logged_in_auth logged_in_reachable
    logout_destroys_session
      [OF logged_in_reachable, of "''token-1''" "''Chess Club''" "''new@mergington.edu''"]
    logout_destroys_session
      [OF logged_in_reachable, of "''token-1''" "''Chess Club''"
          "''michael@mergington.edu''"]
    logout_destroys_session
      [OF logged_in_reachable, of "''token-9''" "''Chess Club''" "''new@mergington.edu''"]
  show ?thesis by blast
qed

section \<open>Frame of a roster change\<close>

text \<open>
  C9. A successful signup or unregister for activity \<open>activity_name\<close> leaves the session
  store unchanged, leaves the entry of every other activity unchanged, and keeps the
  description, the schedule and \<open>max_participants\<close> of the activity itself: only its
  list of participants may differ.
\<close>

theorem roster_change_frame:
  "(fst (signup_request st session_token activity_name email) = Inr r \<longrightarrow>
      sessions (snd (signup_request st session_token activity_name email)) = sessions st \<and>
      (\<forall>other. other \<noteq> activity_name \<longrightarrow>
         activities (snd (signup_request st session_token activity_name email)) other =
         activities st other) \<and>
      (\<exists>a a'. activities st activity_name = Some a \<and>
         activities (snd (signup_request st session_token activity_name email))
           activity_name = Some a' \<and>
         description a' = description a \<and>
         schedule a' = schedule a \<and>
         max_participants a' = max_participants a)) \<and>
   (fst (unregister_request st session_token activity_name email) = Inr r \<longrightarrow>
      sessions (snd (unregister_request st session_token activity_name email)) =
        sessions st \<and>
      (\<forall>other. other \<noteq> activity_name \<longrightarrow>
         activities (snd (unregister_request st session_token activity_name email)) other =
         activities st other) \<and>
      (\<exists>a a'. activities st activity_name = Some a \<and>
         activities (snd (unregister_request st session_token activity_name email))
           activity_name = Some a' \<and>
         description a' = description a \<and>
         schedule a' = schedule a \<and>
         max_participants a' = max_participants a))"
proof (intro conjI impI)
  assume "fst (signup_request st session_token activity_name email) = Inr r"
  from signup_request_frame [OF this] obtain a where
    a: "activities st activity_name = Some a"
       "snd (signup_request st session_token activity_name email) =
          st\<lparr>activities := (activities st)
                (activity_name \<mapsto> a\<lparr>participants := participants a @ [email]\<rparr>)\<rparr>"
    by blast
  note f = frame_of_update [OF a]
  from f show "sessions (snd (signup_request st session_token activity_name email)) =
               sessions st" by blast
  from f show "\<forall>other. other \<noteq> activity_name \<longrightarrow>
         activities (snd (signup_request st session_token activity_name email)) other =
         activities st other" by blast
  from f a(1) show "\<exists>a a'. activities st activity_name = Some a \<and>
         activities (snd (signup_request st session_token activity_name email))
           activity_name = Some a' \<and>
         description a' = description a \<and>
         schedule a' = schedule a \<and>
         max_participants a' = max_participants a" by blast
next
  assume "fst (unregister_request st session_token activity_name email) = Inr r"
  from unregister_request_frame [OF this] obtain a where
    a: "activities st activity_name = Some a"
       "snd (unregister_request st session_token activity_name email) =
          st\<lparr>activities := (activities st)
                (activity_name \<mapsto> a\<lparr>participants := remove1 email (participants a)\<rparr>)\<rparr>"
    by blast
  note f = frame_of_update [OF a]
  from f show "sessions (snd (unregister_request st session_token activity_name email)) =
               sessions st" by blast
  from f show "\<forall>other. other \<noteq> activity_name \<longrightarrow>
         activities (snd (unregister_request st session_token activity_name email)) other =
         activities st other" by blast
  from f a(1) show "\<exists>a a'. activities st activity_name = Some a \<and>
         activities (snd (unregister_request st session_token activity_name email))
           activity_name = Some a' \<and>
         description a' = description a \<and>
         schedule a' = schedule a \<and>
         max_participants a' = max_participants a" by blast
qed

theorem roster_change_frame_witness:
  "fst (signup_request logged_in (Some ''token-1'') ''Chess Club'' ''new@mergington.edu'') =
     Inr [(''message'', JStr ''Signed up new@mergington.edu for Chess Club'')] \<and>
   sessions (snd (signup_request logged_in (Some ''token-1'') ''Chess Club''
                    ''new@mergington.edu'')) = sessions logged_in \<and>
   activities (snd (signup_request logged_in (Some ''token-1'') ''Chess Club''
                      ''new@mergington.edu'')) ''Math Club'' =
     activities logged_in ''Math Club'' \<and>
   map_option max_participants
     (activities (snd (signup_request logged_in (Some ''token-1'') ''Chess Club''
                         ''new@mergington.edu'')) ''Chess Club'') =
     map_option max_participants (activities logged_in ''Chess Club'') \<and>
   fst (unregister_request logged_in (Some ''token-1'') ''Chess Club''
          ''daniel@mergington.edu'') =
     Inr [(''message'', JStr ''Unregistered daniel@mergington.edu from Chess Club'')] \<and>
   sessions (snd (unregister_request logged_in (Some ''token-1'') ''Chess Club''
                    ''daniel@mergington.edu'')) = sessions logged_in \<and>
   activities (snd (unregister_request logged_in (Some ''token-1'') ''Chess Club''
                      ''daniel@mergington.edu'')) ''Math Club'' =
     activities logged_in ''Math Club'' \<and>
   map_option max_participants
     (activities (snd (unregister_request logged_in (Some ''token-1'') ''Chess Club''
                         ''daniel@mergington.edu'')) ''Chess Club'') =
     map_option max_participants (activities logged_in ''Chess Club'')"
proof -
  from logged_in_chess_club obtain a where
    a: "activities logged_in ''Chess Club'' = Some a"
       "participants a = [''michael@mergington.edu'', ''daniel@mergington.edu'']"
    by blast
  have up: "fst (signup_request logged_in (Some ''token-1'') ''Chess Club''
                   ''new@mergington.edu'') =
              Inr [(''message'', JStr ''Signed up new@mergington.edu for Chess Club'')]"
    using a signup_request_success [OF logged_in_auth a(1), of "''new@mergington.edu''"]
    by simp
  have down: "fst (unregister_request logged_in (Some ''token-1'') ''Chess Club''
                     ''daniel@mergington.edu'') =
              Inr [(''message'',
                    JStr ''Unregistered daniel@mergington.edu from Chess Club'')]"
    using a unregister_request_success [OF logged_in_auth a(1), of "''daniel@mergington.edu''"]
    by simp
  have diff: "''Math Club'' \<noteq> ''Chess Club''" by simp
  note f1 = roster_change_frame
      [of logged_in "Some ''token-1''" "''Chess Club''" "''new@mergington.edu''"
          "[(''message'', JStr ''Signed up new@mergington.edu for Chess Club'')]"]
  note f2 = roster_change_frame
      [of logged_in "Some ''token-1''" "''Chess Club''" "''daniel@mergington.edu''"
          "[(''message'', JStr ''Unregistered daniel@mergington.edu from Chess Club'')]"]
  from f1 up have s1:
    "sessions (snd (signup_request logged_in (Some ''token-1'') ''Chess Club''
                    ''new@mergington.edu'')) = sessions logged_in"
    and o1: "\<forall>other. other \<noteq> ''Chess Club'' \<longrightarrow>
       activities (snd (signup_request logged_in (Some ''token-1'') ''Chess Club''
                      ''new@mergington.edu'')) other = activities logged_in other"
    and m1: "\<exists>a a'. activities logged_in ''Chess Club'' = Some a \<and>
       activities (snd (signup_request logged_in (Some ''token-1'') ''Chess Club''
                      ''new@mergington.edu'')) ''Chess Club'' = Some a' \<and>
       description a' = description a \<and> schedule a' = schedule a \<and>
       max_participants a' = max_participants a"
    by blast+
  from f2 down have s2:
    "sessions (snd (unregister_request logged_in (Some ''token-1'') ''Chess Club''
                    ''daniel@mergington.edu'')) = sessions logged_in"
    and o2: "\<forall>other. other \<noteq> ''Chess Club'' \<longrightarrow>
       activities (snd (unregister_request logged_in (Some ''token-1'') ''Chess Club''
                      ''daniel@mergington.edu'')) other = activities logged_in other"
    and m2: "\<exists>a a'. activities logged_in ''Chess Club'' = Some a \<and>
       activities (snd (unregister_request logged_in (Some ''token-1'') ''Chess Club''
                      ''daniel@mergington.edu'')) ''Chess Club'' = Some a' \<and>
       description a' = description a \<and> schedule a' = schedule a \<and>
       max_participants a' = max_participants a"
    by blast+
  from o1 [rule_format, OF diff] have o1': "activities (snd (signup_request logged_in (Some ''token-1'')
        ''Chess Club'' ''new@mergington.edu'')) ''Math Club'' =
     activities logged_in ''Math Club''" .
  from o2 [rule_format, OF diff] have o2': "activities (snd (unregister_request logged_in (Some ''token-1'')
        ''Chess Club'' ''daniel@mergington.edu'')) ''Math Club'' =
     activities logged_in ''Math Club''" .
  from m1 have m1': "map_option max_participants
     (activities (snd (signup_request logged_in (Some ''token-1'') ''Chess Club''
                         ''new@mergington.edu'')) ''Chess Club'') =
     map_option max_participants (activities logged_in ''Chess Club'')"
    by (elim exE conjE) simp
  from m2 have m2': "map_option max_participants
     (activities (snd (unregister_request logged_in (Some ''token-1'') ''Chess Club''
                         ''daniel@mergington.edu'')) ''Chess Club'') =
     map_option max_participants (activities logged_in ''Chess Club'')"
    by (elim exE conjE) simp
  from up s1 o1' m1' down s2 o2' m2' show ?thesis by (intro conjI)
qed

section \<open>Signup followed by unregister\<close>

text \<open>
  C10. In a state whose rosters are free of duplicates, for an authenticated request, an
  existing activity and an email its roster does not hold: the signup succeeds, and the
  unregister of the same email from the same activity that follows succeeds and gives
  back the original state, the whole catalog included.
\<close>

theorem signup_then_unregister_restores:
  assumes "no_duplicates st"
    and "require_auth st session_token = Inr user"
    and "activities st activity_name = Some a"
    and "email \<notin> set (participants a)"
  shows "fst (signup_request st session_token activity_name email) =
           Inr [(''message'', JStr (''Signed up '' @ email @ '' for '' @ activity_name))] \<and>
         unregister_request (snd (signup_request st session_token activity_name email))
             session_token activity_name email =
           (Inr [(''message'',
                  JStr (''Unregistered '' @ email @ '' from '' @ activity_name))], st)"
proof -
  let ?st1 = "st\<lparr>activities := (activities st)
                  (activity_name \<mapsto> a\<lparr>participants := participants a @ [email]\<rparr>)\<rparr>"
  let ?a1 = "a\<lparr>participants := participants a @ [email]\<rparr>"
  have up: "signup_request st session_token activity_name email =
              (Inr [(''message'', JStr (''Signed up '' @ email @ '' for '' @ activity_name))],
               ?st1)"
    using assms(2-4) by (rule signup_request_success)
  have auth1: "require_auth ?st1 session_token = Inr user"
    using assms(2) by simp
  have look1: "activities ?st1 activity_name = Some ?a1" by simp
  have mem1: "email \<in> set (participants ?a1)" by simp
  have restored: "?st1\<lparr>activities := (activities ?st1)
                (activity_name \<mapsto> ?a1\<lparr>participants := remove1 email (participants ?a1)\<rparr>)\<rparr>
              = st"
    using assms(3,4) by (simp add: remove1_append_new map_upd_triv)
  have down: "unregister_request ?st1 session_token activity_name email =
           (Inr [(''message'',
                  JStr (''Unregistered '' @ email @ '' from '' @ activity_name))], st)"
    using unregister_request_success [OF auth1 look1 mem1] restored by simp
  show ?thesis using up down by simp
qed

theorem signup_then_unregister_restores_witness:
  "no_duplicates logged_in \<and>
   require_auth logged_in (Some ''token-1'') = Inr ''alice'' \<and>
   map_option participants (activities logged_in ''Chess Club'') =
     Some [''michael@mergington.edu'', ''daniel@mergington.edu''] \<and>
   fst (signup_request logged_in (Some ''token-1'') ''Chess Club'' ''new@mergington.edu'') =
     Inr [(''message'', JStr ''Signed up new@mergington.edu for Chess Club'')] \<and>
   unregister_request
       (snd (signup_request logged_in (Some ''token-1'') ''Chess Club''
               ''new@mergington.edu''))
       (Some ''token-1'') ''Chess Club'' ''new@mergington.edu'' =
     (Inr [(''message'', JStr ''Unregistered new@mergington.edu from Chess Club'')],
      logged_in)"
proof -
  from logged_in_chess_club obtain a where
    a: "activities logged_in ''Chess Club'' = Some a"
       "participants a = [''michael@mergington.edu'', ''daniel@mergington.edu'']"
    by blast
  have fresh: "''new@mergington.edu'' \<notin> set (participants a)"
    using a(2) by simp
  from signup_then_unregister_restores
         [OF logged_in_no_duplicates logged_in_auth a(1) fresh]
       a logged_in_no_duplicates logged_in_auth
  show ?thesis by simp
qed

end
